theory Spec2Isabelle
  imports Main "HOL-Library.Sublist"
begin

section \<open>The container supervisor of \<open>load-balancer/src/index.ts\<close>\<close>

text \<open>
  The class \<open>Container\<close> is a Durable Object that supervises one container: it keeps a
  lifecycle state under the storage key \<open>state\<close>, probes the container from its alarm
  handler, reacts to the settlement of the runtime's monitor promise, and tears everything
  down in \<open>destroy\<close>. The embedding is a state-and-exception monad over a record of the
  object and its storage; every call that leaves the object (storage, console, runtime,
  network) appends an event to a trace, so that the order of effects can be stated.
\<close>

subsection \<open>Data\<close>

text \<open>\<^verbatim>\<open>type ContainerState = 'starting' | 'running' | 'unhealthy' | 'stopped' | 'failed'\<close>\<close>

datatype ContainerState = Starting | Running | Unhealthy | Stopped | Failed

text \<open>
  What a promise rejects with: a JavaScript \<open>Error\<close> carrying a message, or the reset of
  the object by \<open>ctx.abort()\<close>, which application code cannot catch and which carries no
  message.
\<close>

datatype exn = Error string | Aborted

fun message :: "exn \<Rightarrow> string" where
  "message (Error m) = m"
| "message Aborted = []"

text \<open>
  A \<open>Response\<close>: its status, and what reading its body stream with \<open>text()\<close> settles
  with. The source wraps \<open>result.text()\<close> in \<open>wrap\<close>, so a read can reject.
\<close>

record response =
  status :: nat
  body :: "exn + string"

text \<open>\<open>Response.ok\<close>: the status is in the range 200 to 299.\<close>

definition ok :: "response \<Rightarrow> bool" where
  "ok res = (200 \<le> status res \<and> status res \<le> 299)"

text \<open>
  The return type of \<open>healthCheck\<close>:
  \<^verbatim>\<open>'ok' | 'not_listening' | 'no_container_yet' | Response\<close>.
\<close>

datatype HealthCheckResult = Ok | NotListening | NoContainerYet | HttpResponse response

text \<open>
  \<open>ContainerStartupOptions\<close> is an ambient type of the Workers runtime; the supervisor
  only passes it on to \<open>container.start\<close>.
\<close>

record ContainerStartupOptions =
  entrypoint :: "string list"
  enableInternet :: bool

datatype level = Log | Warn | Err

text \<open>One event for each call that leaves the object.\<close>

datatype event =
    Console level
  | EnterCritical
  | ExitCritical
  | StorageGet
  | StoragePut ContainerState
  | StorageSync
  | StorageDeleteAll
  | GetAlarm
  | SetAlarm int
  | DeleteAlarm
  | GetTcpPort nat
  | Fetch nat string
  | ReadText
  | ContainerStart "ContainerStartupOptions option"
  | ContainerMonitor
  | AttachHandlers nat
  | ContainerDestroy
  | CtxAbort

text \<open>
  The Durable Object with its context: the value under the storage key \<open>state\<close>, the
  alarm slot of the storage, \<open>this.container.running\<close>, \<open>this.monitor\<close> (the monitor
  promises are numbered in the order \<open>container.monitor()\<close> returned them), and the
  trace of events so far.
\<close>

record supervisor =
  stored_state :: "ContainerState option"
  pending_alarm :: "int option"
  running :: bool
  monitor :: "nat option"
  monitors_created :: nat
  trace :: "event list"

text \<open>
  What the platform answers during one operation: the clock, what \<open>port.fetch\<close> settles
  with, whether a storage call rejects (it may depend on everything that happened before
  the call), and whether \<open>container.destroy()\<close> rejects.
\<close>

record host =
  now :: int
  fetch_result :: "exn + response"
  storage_fault :: "event list \<Rightarrow> event \<Rightarrow> exn option"
  destroy_result :: "exn option"

text \<open>The \<open>DurableObjectState\<close> handed to the constructor; \<open>ctx.container\<close> may be undefined.\<close>

record ctx =
  ctx_state :: "ContainerState option"
  ctx_alarm :: "int option"
  ctx_container :: "bool option"

subsection \<open>Promises as state-and-exception computations\<close>

type_synonym 'a task = "supervisor \<Rightarrow> (exn + 'a) \<times> supervisor"

definition ret :: "'a \<Rightarrow> 'a task" where
  "ret x w = (Inr x, w)"

definition throw :: "exn \<Rightarrow> 'a task" where
  "throw e w = (Inl e, w)"

text \<open>\<open>const x = await m; f x\<close>: a rejection of \<open>m\<close> skips \<open>f\<close>.\<close>

definition await :: "'a task \<Rightarrow> ('a \<Rightarrow> 'b task) \<Rightarrow> 'b task" where
  "await m f w = (case m w of (Inl e, w') \<Rightarrow> (Inl e, w') | (Inr x, w') \<Rightarrow> f x w')"

text \<open>
  \<^verbatim>\<open>fn.then((data) => [data, null]).catch((err) => [null, err])\<close>: the promise that
  \<open>wrap\<close> returns never rejects; it carries the outcome as a value.
\<close>

definition wrap :: "'a task \<Rightarrow> (exn + 'a) task" where
  "wrap fn w = (case fn w of (r, w') \<Rightarrow> (Inr r, w'))"

text \<open>
  \<open>try { body } finally { fin }\<close>: \<open>fin\<close> runs after \<open>body\<close> whatever it did; a
  rejection of \<open>fin\<close> replaces the outcome of \<open>body\<close>, otherwise the outcome of
  \<open>body\<close> stands.
\<close>

definition try_finally :: "'a task \<Rightarrow> unit task \<Rightarrow> 'a task" where
  "try_finally bdy fin w =
     (case bdy w of (r, w1) \<Rightarrow>
        (case fin w1 of (Inl e, w2) \<Rightarrow> (Inl e, w2) | (Inr u, w2) \<Rightarrow> (r, w2)))"

text \<open>\<open>p.catch(handler)\<close>.\<close>

definition catch :: "'a task \<Rightarrow> (exn \<Rightarrow> 'a task) \<Rightarrow> 'a task" where
  "catch m handler w = (case m w of (Inl e, w') \<Rightarrow> handler e w' | (Inr x, w') \<Rightarrow> (Inr x, w'))"

subsection \<open>The platform's primitives\<close>

definition emit :: "event \<Rightarrow> supervisor \<Rightarrow> supervisor" where
  "emit e w = w\<lparr>trace := trace w @ [e]\<rparr>"

definition console :: "level \<Rightarrow> unit task" where
  "console l w = (Inr (), emit (Console l) w)"

text \<open>
  A call on \<open>ctx.storage\<close>: it is recorded, and either rejects, leaving the storage as it
  was, or returns what it read from the storage after its update.
\<close>

definition storage_call ::
  "host \<Rightarrow> event \<Rightarrow> (supervisor \<Rightarrow> 'a) \<Rightarrow> (supervisor \<Rightarrow> supervisor) \<Rightarrow> 'a task" where
  "storage_call h ev rd upd w =
     (case storage_fault h (trace w) ev of
        Some e \<Rightarrow> (Inl e, emit ev w)
      | None \<Rightarrow> (Inr (rd w), emit ev (upd w)))"

definition storage_get :: "host \<Rightarrow> ContainerState option task" where
  "storage_get h = storage_call h StorageGet stored_state (\<lambda>w. w)"

definition storage_put :: "host \<Rightarrow> ContainerState \<Rightarrow> unit task" where
  "storage_put h s = storage_call h (StoragePut s) (\<lambda>w. ()) (\<lambda>w. w\<lparr>stored_state := Some s\<rparr>)"

definition storage_sync :: "host \<Rightarrow> unit task" where
  "storage_sync h = storage_call h StorageSync (\<lambda>w. ()) (\<lambda>w. w)"

definition storage_deleteAll :: "host \<Rightarrow> unit task" where
  "storage_deleteAll h = storage_call h StorageDeleteAll (\<lambda>w. ()) (\<lambda>w. w\<lparr>stored_state := None\<rparr>)"

definition storage_getAlarm :: "host \<Rightarrow> int option task" where
  "storage_getAlarm h = storage_call h GetAlarm pending_alarm (\<lambda>w. w)"

definition storage_setAlarm :: "host \<Rightarrow> int \<Rightarrow> unit task" where
  "storage_setAlarm h v = storage_call h (SetAlarm v) (\<lambda>w. ()) (\<lambda>w. w\<lparr>pending_alarm := Some v\<rparr>)"

definition storage_deleteAlarm :: "host \<Rightarrow> unit task" where
  "storage_deleteAlarm h = storage_call h DeleteAlarm (\<lambda>w. ()) (\<lambda>w. w\<lparr>pending_alarm := None\<rparr>)"

text \<open>
  \<open>ctx.blockConcurrencyWhile(callback)\<close>: the callback runs inside the critical section
  of the object, the section ends when the callback settles, and the returned promise
  settles as the callback did.
\<close>

definition blockConcurrencyWhile :: "'a task \<Rightarrow> 'a task" where
  "blockConcurrencyWhile callback w =
     (case callback (emit EnterCritical w) of (r, w') \<Rightarrow> (r, emit ExitCritical w'))"

text \<open>\<open>ctx.abort()\<close> resets the object: it always throws.\<close>

definition ctx_abort :: "unit task" where
  "ctx_abort w = (Inl Aborted, emit CtxAbort w)"

text \<open>The runtime handle \<open>this.container\<close>. A started container reports \<open>running\<close>.\<close>

definition container_start :: "ContainerStartupOptions option \<Rightarrow> unit task" where
  "container_start containerStart w = (Inr (), emit (ContainerStart containerStart) (w\<lparr>running := True\<rparr>))"

definition container_monitor :: "nat task" where
  "container_monitor w =
     (Inr (monitors_created w), emit ContainerMonitor (w\<lparr>monitors_created := Suc (monitors_created w)\<rparr>))"

definition container_destroy :: "host \<Rightarrow> unit task" where
  "container_destroy h w =
     (case destroy_result h of
        Some e \<Rightarrow> (Inl e, emit ContainerDestroy w)
      | None \<Rightarrow> (Inr (), emit ContainerDestroy (w\<lparr>running := False\<rparr>)))"

definition getTcpPort :: "nat \<Rightarrow> nat task" where
  "getTcpPort portNumber w = (Inr portNumber, emit (GetTcpPort portNumber) w)"

text \<open>\<open>port.fetch(new Request(url))\<close>.\<close>

definition fetch :: "host \<Rightarrow> nat \<Rightarrow> string \<Rightarrow> response task" where
  "fetch h port url w = (fetch_result h, emit (Fetch port url) w)"

text \<open>\<open>res.text()\<close>.\<close>

definition response_text :: "response \<Rightarrow> string task" where
  "response_text res w = (body res, emit ReadText w)"

subsection \<open>The module's functions\<close>

text \<open>\<open>String.prototype.includes\<close>: \<open>sub\<close> occurs in \<open>s\<close> as a contiguous run.\<close>

fun str_includes :: "string \<Rightarrow> string \<Rightarrow> bool" where
  "str_includes [] sub = (sub = [])"
| "str_includes (c # cs) sub = (prefix sub (c # cs) \<or> str_includes cs sub)"

definition isNotListeningError :: "exn \<Rightarrow> bool" where
  "isNotListeningError err = str_includes (message err) ''the container is not listening''"

definition noContainerYetError :: "exn \<Rightarrow> bool" where
  "noContainerYetError err = str_includes (message err) ''there is no container instance''"

text \<open>\<^verbatim>\<open>return (await this.ctx.storage.get('state')) ?? 'starting'\<close>\<close>

definition state :: "host \<Rightarrow> ContainerState task" where
  "state h = await (storage_get h) (\<lambda>v. ret (case v of None \<Rightarrow> Starting | Some s \<Rightarrow> s))"

definition stateTx :: "host \<Rightarrow> (ContainerState \<Rightarrow> unit task) \<Rightarrow> unit task" where
  "stateTx h cb = blockConcurrencyWhile (await (state h) (\<lambda>s. cb s))"

definition setState :: "host \<Rightarrow> ContainerState \<Rightarrow> unit task" where
  "setState h s =
     await (console Log) (\<lambda>_.
     await (storage_put h s) (\<lambda>_.
     storage_sync h))"

text \<open>\<open>setAlarm(value = Date.now() + 500)\<close>; the callers supply the default.\<close>

definition setAlarm :: "host \<Rightarrow> int \<Rightarrow> unit task" where
  "setAlarm h v =
     await (storage_getAlarm h) (\<lambda>alarm.
       if alarm = None then
         await (storage_setAlarm h v) (\<lambda>_.
         storage_sync h)
       else ret ())"

definition healthCheck :: "host \<Rightarrow> nat \<Rightarrow> HealthCheckResult task" where
  "healthCheck h portNumber =
     await (getTcpPort portNumber) (\<lambda>port.
     await (wrap (fetch h port ''http://container/_health'')) (\<lambda>r.
       case r of
         Inl err \<Rightarrow>
           if isNotListeningError err then ret NotListening
           else if noContainerYetError err then ret NoContainerYet
           else throw err
       | Inr res \<Rightarrow>
           if ok res then await (response_text res) (\<lambda>_. ret Ok)
           else ret (HttpResponse res)))"

text \<open>
  The callback that \<open>alarm\<close> passes to \<open>stateTx\<close>. The source tests the result in the
  order: an error, a \<open>Response\<close> (\<open>typeof result !== 'string'\<close>), \<open>'ok'\<close>, then
  \<open>'not_listening'\<close> or \<open>'no_container_yet'\<close>; its last line (\<open>unknown result\<close>) is not
  reachable from a value of the result type.
\<close>

definition alarm_callback :: "host \<Rightarrow> ContainerState \<Rightarrow> unit task" where
  "alarm_callback h st =
     await (console Log) (\<lambda>_.
     await (wrap (healthCheck h 8000)) (\<lambda>r.
       case r of
         Inl err \<Rightarrow>
           await (console Err) (\<lambda>_.
           if st \<noteq> Starting then setState h Failed else ret ())
       | Inr (HttpResponse result) \<Rightarrow>
           await (console Warn) (\<lambda>_.
           await (wrap (response_text result)) (\<lambda>_.
           setState h Unhealthy))
       | Inr Ok \<Rightarrow> setState h Running
       | Inr NotListening \<Rightarrow> setState h Starting
       | Inr NoContainerYet \<Rightarrow> setState h Starting))"

definition alarm :: "host \<Rightarrow> unit task" where
  "alarm h = try_finally (stateTx h (alarm_callback h)) (setAlarm h (now h + 500))"

text \<open>
  \<open>handleMonitorPromise(monitor)\<close> attaches \<open>.then(...).catch(...)\<close> to the promise and
  returns. The two callbacks run when the promise settles: \<open>monitor_then\<close> when it
  resolves, \<open>monitor_catch\<close> when it rejects or when \<open>monitor_then\<close> itself rejects.
\<close>

definition handleMonitorPromise :: "nat \<Rightarrow> unit task" where
  "handleMonitorPromise m w = (Inr (), emit (AttachHandlers m) w)"

definition monitor_then :: "host \<Rightarrow> unit task" where
  "monitor_then h =
     stateTx h (\<lambda>st.
       if st = Running \<or> st = Unhealthy then
         await (setState h Stopped) (\<lambda>_. console Log)
       else if st = Starting then console Log
       else if st = Failed then console Log
       else ret ())"

definition monitor_catch :: "host \<Rightarrow> exn \<Rightarrow> unit task" where
  "monitor_catch h err =
     await (console Err) (\<lambda>_.
     setState h Failed)"

datatype settlement = Resolved | Rejected exn

definition monitor_settled :: "host \<Rightarrow> settlement \<Rightarrow> unit task" where
  "monitor_settled h s =
     (case s of
        Resolved \<Rightarrow> catch (monitor_then h) (monitor_catch h)
      | Rejected err \<Rightarrow> monitor_catch h err)"

text \<open>
  The two statements
  \<^verbatim>\<open>this.monitor = this.container.monitor(); this.handleMonitorPromise(this.monitor);\<close>
  which the source writes out in the constructor and twice in \<open>start\<close>.
\<close>

definition attach_monitor :: "unit task" where
  "attach_monitor =
     await container_monitor (\<lambda>m.
     (\<lambda>w. handleMonitorPromise m (w\<lparr>monitor := Some m\<rparr>)))"

definition start :: "host \<Rightarrow> ContainerStartupOptions option \<Rightarrow> unit task" where
  "start h containerStart w =
     (if running w then
        (if monitor w = None then attach_monitor w else ret () w)
      else
        (await (setState h Starting) (\<lambda>_.
         await (container_start containerStart) (\<lambda>_.
         attach_monitor))) w)"

definition destroy :: "host \<Rightarrow> unit task" where
  "destroy h =
     try_finally
       (await (storage_deleteAll h) (\<lambda>_.
        await (storage_deleteAlarm h) (\<lambda>_.
        container_destroy h)))
       ctx_abort"

text \<open>
  The constructor. It throws before anything else when \<open>ctx.container\<close> is undefined
  (\<open>Inl\<close>, and no object exists). Otherwise the object exists with \<open>this.monitor\<close>
  undefined, and the initialisation runs inside \<open>blockConcurrencyWhile\<close>; the second
  component is the object with how that section settled.
\<close>

definition new_supervisor :: "ctx \<Rightarrow> bool \<Rightarrow> supervisor" where
  "new_supervisor c r =
     \<lparr>stored_state = ctx_state c, pending_alarm = ctx_alarm c, running = r,
      monitor = None, monitors_created = 0, trace = []\<rparr>"

definition constructor_init :: "host \<Rightarrow> unit task" where
  "constructor_init h =
     blockConcurrencyWhile
       (await (\<lambda>w. if running w then (if monitor w = None then attach_monitor w else ret () w)
                    else ret () w) (\<lambda>_.
        setAlarm h (now h)))"

definition constructor :: "host \<Rightarrow> ctx \<Rightarrow> exn + ((exn + unit) \<times> supervisor)" where
  "constructor h c =
     (case ctx_container c of
        None \<Rightarrow> Inl (Error ''container is not defined'')
      | Some r \<Rightarrow> Inr (constructor_init h (new_supervisor c r)))"


subsection \<open>The lifecycle\<close>

text \<open>
  What can happen to a constructed supervisor, one operation at a time: a call of
  \<open>start\<close>; the alarm handler (\<open>OpAlarm True\<close> when the platform has taken the fired
  timer out of the alarm slot before it runs the handler, \<open>OpAlarm False\<close> when the slot
  is as it was); the settlement of the monitor promise; and the runtime changing
  \<open>container.running\<close> by itself. Each operation has its own answers of the platform.
  \<open>destroy\<close> is not among them: it ends the object.
\<close>

datatype op =
    OpStart "ContainerStartupOptions option"
  | OpAlarm bool
  | OpMonitorSettled settlement
  | OpRuntime bool

fun step :: "host \<Rightarrow> op \<Rightarrow> supervisor \<Rightarrow> supervisor" where
  "step h (OpStart containerStart) w = snd (start h containerStart w)"
| "step h (OpAlarm fired) w = snd (alarm h (if fired then w\<lparr>pending_alarm := None\<rparr> else w))"
| "step h (OpMonitorSettled s) w = snd (monitor_settled h s w)"
| "step h (OpRuntime r) w = w\<lparr>running := r\<rparr>"

fun run :: "(host \<times> op) list \<Rightarrow> supervisor \<Rightarrow> supervisor" where
  "run [] w = w"
| "run ((h, op) # rest) w = run rest (step h op w)"

subsection \<open>Vocabulary of the properties\<close>

text \<open>No storage call rejects during the operation.\<close>

definition storage_healthy :: "host \<Rightarrow> bool" where
  "storage_healthy h = (\<forall>t e. storage_fault h t e = None)"

text \<open>
  The calls that \<open>setAlarm\<close> makes do not reject: \<open>getAlarm\<close>, \<open>setAlarm\<close> and the
  \<open>sync\<close> that follows it. The other storage calls may.
\<close>

definition timer_ok :: "host \<Rightarrow> bool" where
  "timer_ok h =
     (\<forall>t. storage_fault h t GetAlarm = None
        \<and> (\<forall>v. storage_fault h t (SetAlarm v) = None
              \<and> storage_fault h (t @ [SetAlarm v]) StorageSync = None))"

text \<open>The state as \<open>state()\<close> reads it, without the call: absent reads as \<open>starting\<close>.\<close>

definition persisted_state :: "supervisor \<Rightarrow> ContainerState" where
  "persisted_state w = (case stored_state w of None \<Rightarrow> Starting | Some s \<Rightarrow> s)"

text \<open>
  The transition table of the specification (section 4.1), from the current state and the
  outcome of \<open>healthCheck\<close> (\<open>Inl\<close>: it raised a generic error) to the new state.
\<close>

definition spec_transition_table ::
  "ContainerState \<Rightarrow> exn + HealthCheckResult \<Rightarrow> ContainerState" where
  "spec_transition_table cur r =
     (case r of
        Inr Ok \<Rightarrow> Running
      | Inr NotListening \<Rightarrow> Starting
      | Inr NoContainerYet \<Rightarrow> Starting
      | Inr (HttpResponse res) \<Rightarrow> Unhealthy
      | Inl err \<Rightarrow> if cur = Starting then Starting else Failed)"

text \<open>
  The events that read or write the persisted state, and the traces in which each of them
  lies between an \<open>EnterCritical\<close> and the next \<open>ExitCritical\<close>; the flag says whether
  the trace starts inside the critical section.
\<close>

fun is_state_access :: "event \<Rightarrow> bool" where
  "is_state_access StorageGet = True"
| "is_state_access (StoragePut s) = True"
| "is_state_access StorageDeleteAll = True"
| "is_state_access e = False"

fun serialized :: "bool \<Rightarrow> event list \<Rightarrow> bool" where
  "serialized inside [] = True"
| "serialized inside (EnterCritical # es) = serialized True es"
| "serialized inside (ExitCritical # es) = serialized False es"
| "serialized inside (e # es) =
     ((if is_state_access e then inside else True) \<and> serialized inside es)"

text \<open>A computation that leaves the alarm slot as it found it.\<close>

definition keeps_alarm :: "'a task \<Rightarrow> bool" where
  "keeps_alarm m = (\<forall>w. pending_alarm (snd (m w)) = pending_alarm w)"

text \<open>A computation that rejects only with what a storage call rejected with.\<close>

definition storage_errors_only :: "host \<Rightarrow> 'a task \<Rightarrow> bool" where
  "storage_errors_only h m =
     (\<forall>w e. fst (m w) = Inl e \<longrightarrow> (\<exists>t ev. storage_fault h t ev = Some e))"

subsection \<open>Concrete scenarios\<close>

definition no_faults :: "event list \<Rightarrow> event \<Rightarrow> exn option" where
  "no_faults t e = None"

text \<open>A fresh object: nothing stored, no timer, the runtime not running.\<close>

definition sup_fresh :: supervisor where
  "sup_fresh =
     \<lparr>stored_state = None, pending_alarm = None, running = False,
      monitor = None, monitors_created = 0, trace = []\<rparr>"

text \<open>A supervisor in state \<open>running\<close> whose timer has just fired.\<close>

definition sup_running :: supervisor where
  "sup_running =
     \<lparr>stored_state = Some Running, pending_alarm = None, running = True,
      monitor = Some 0, monitors_created = 1, trace = []\<rparr>"

text \<open>The same between two ticks, with its timer pending; and one that lost its monitor.\<close>

definition sup_armed :: supervisor where
  "sup_armed =
     \<lparr>stored_state = Some Running, pending_alarm = Some 1500, running = True,
      monitor = Some 0, monitors_created = 1, trace = []\<rparr>"

definition sup_unmonitored :: supervisor where
  "sup_unmonitored =
     \<lparr>stored_state = Some Running, pending_alarm = Some 1500, running = True,
      monitor = None, monitors_created = 0, trace = []\<rparr>"

text \<open>Scenario B: the probe answers 200. Scenario C: it answers 503.\<close>

definition host_200 :: host where
  "host_200 =
     \<lparr>now = 1000, fetch_result = Inr \<lparr>status = 200, body = Inr ''ok''\<rparr>,
      storage_fault = no_faults, destroy_result = None\<rparr>"

definition host_503 :: host where
  "host_503 =
     \<lparr>now = 1000, fetch_result = Inr \<lparr>status = 503, body = Inr ''down''\<rparr>,
      storage_fault = no_faults, destroy_result = None\<rparr>"

text \<open>The probe answers 200 and the connection breaks while the body is read.\<close>

definition host_broken_body :: host where
  "host_broken_body =
     \<lparr>now = 1000,
      fetch_result = Inr \<lparr>status = 200, body = Inl (Error ''connection reset'')\<rparr>,
      storage_fault = no_faults, destroy_result = None\<rparr>"

text \<open>The fetch rejects with the given message.\<close>

definition host_error :: "string \<Rightarrow> host" where
  "host_error m =
     \<lparr>now = 1000, fetch_result = Inl (Error m),
      storage_fault = no_faults, destroy_result = None\<rparr>"

text \<open>Scenario F: the runtime's own destroy call fails.\<close>

definition host_destroy_fails :: host where
  "host_destroy_fails =
     \<lparr>now = 1000, fetch_result = Inr \<lparr>status = 200, body = Inr ''ok''\<rparr>,
      storage_fault = no_faults, destroy_result = Some (Error ''runtime destroy failed'')\<rparr>"

text \<open>The storage rejects every read of the state; and it rejects the write of \<open>running\<close>.\<close>

definition host_storage_down :: host where
  "host_storage_down =
     \<lparr>now = 1000, fetch_result = Inr \<lparr>status = 200, body = Inr ''ok''\<rparr>,
      storage_fault =
        (\<lambda>t e. if e = StorageGet then Some (Error ''storage unavailable'') else None),
      destroy_result = None\<rparr>"

definition host_put_fails :: host where
  "host_put_fails =
     \<lparr>now = 1000, fetch_result = Inr \<lparr>status = 200, body = Inr ''ok''\<rparr>,
      storage_fault =
        (\<lambda>t e. if e = StoragePut Running then Some (Error ''storage put failed'') else None),
      destroy_result = None\<rparr>"

definition ctx_without_container :: ctx where
  "ctx_without_container = \<lparr>ctx_state = None, ctx_alarm = None, ctx_container = None\<rparr>"

definition ctx_idle :: ctx where
  "ctx_idle = \<lparr>ctx_state = None, ctx_alarm = None, ctx_container = Some False\<rparr>"

section \<open>Properties\<close>

subsection \<open>Closed forms of the building blocks\<close>

lemma persisted_state_simps [simp]:
  "persisted_state (trace_update f w) = persisted_state w"
  "persisted_state (pending_alarm_update g w) = persisted_state w"
  "persisted_state (running_update r w) = persisted_state w"
  "persisted_state (monitor_update m w) = persisted_state w"
  "persisted_state (monitors_created_update k w) = persisted_state w"
  "persisted_state (w\<lparr>stored_state := Some s\<rparr>) = s"
  "persisted_state (w\<lparr>stored_state := None\<rparr>) = Starting"
  by (simp_all add: persisted_state_def)

lemma healthy_fault: "storage_healthy h \<Longrightarrow> storage_fault h t e = None"
  by (simp add: storage_healthy_def)

lemma healthy_timer_ok: "storage_healthy h \<Longrightarrow> timer_ok h"
  by (simp add: storage_healthy_def timer_ok_def)

lemma str_includes_sublist: "str_includes s sub = sublist sub s"
  by (induction s) (simp_all add: sublist_Cons_right)

lemma state_healthy:
  "storage_healthy h \<Longrightarrow>
   state h w = (Inr (persisted_state w), w\<lparr>trace := trace w @ [StorageGet]\<rparr>)"
  by (simp add: state_def await_def ret_def storage_get_def storage_call_def emit_def
      healthy_fault persisted_state_def)

lemma setState_healthy:
  "storage_healthy h \<Longrightarrow>
   setState h s w =
     (Inr (), w\<lparr>stored_state := Some s,
                 trace := trace w @ [Console Log, StoragePut s, StorageSync]\<rparr>)"
  by (simp add: setState_def await_def console_def storage_put_def storage_sync_def
      storage_call_def emit_def healthy_fault)

lemma stateTx_healthy:
  "storage_healthy h \<Longrightarrow>
   stateTx h cb w =
     (fst (cb (persisted_state w) (w\<lparr>trace := trace w @ [EnterCritical, StorageGet]\<rparr>)),
      emit ExitCritical
        (snd (cb (persisted_state w) (w\<lparr>trace := trace w @ [EnterCritical, StorageGet]\<rparr>))))"
  by (simp add: stateTx_def blockConcurrencyWhile_def await_def state_healthy emit_def
      split: prod.splits)

lemma try_finally_snd: "snd (try_finally b f w) = snd (f (snd (b w)))"
  by (simp add: try_finally_def split: prod.splits sum.splits)

lemma try_finally_fst:
  "fst (try_finally b f w) =
     (case fst (f (snd (b w))) of Inl e \<Rightarrow> Inl e | Inr u \<Rightarrow> fst (b w))"
  by (simp add: try_finally_def split: prod.splits sum.splits)

lemma attach_monitor_closed:
  "attach_monitor w =
     (Inr (), w\<lparr>monitor := Some (monitors_created w),
                 monitors_created := Suc (monitors_created w),
                 trace := trace w @ [ContainerMonitor, AttachHandlers (monitors_created w)]\<rparr>)"
  by (simp add: attach_monitor_def await_def container_monitor_def handleMonitorPromise_def
      emit_def)

subsection \<open>Rescheduling\<close>

lemma setAlarm_stored: "stored_state (snd (setAlarm h v w)) = stored_state w"
  by (simp add: setAlarm_def await_def ret_def storage_getAlarm_def storage_setAlarm_def
      storage_sync_def storage_call_def emit_def split: option.splits)

lemma setAlarm_persisted: "persisted_state (snd (setAlarm h v w)) = persisted_state w"
  by (simp add: persisted_state_def setAlarm_stored)

lemma setAlarm_trace: "\<exists>post. trace (snd (setAlarm h v w)) = trace w @ post"
  by (simp add: setAlarm_def await_def ret_def storage_getAlarm_def storage_setAlarm_def
      storage_sync_def storage_call_def emit_def split: option.splits)

lemma setAlarm_no_overwrite:
  "pending_alarm w = Some t \<Longrightarrow> pending_alarm (snd (setAlarm h v w)) = Some t"
  by (simp add: setAlarm_def await_def ret_def storage_getAlarm_def storage_setAlarm_def
      storage_sync_def storage_call_def emit_def split: option.splits)

lemma setAlarm_pending:
  assumes "timer_ok h"
  shows "pending_alarm (snd (setAlarm h v w)) =
           (case pending_alarm w of None \<Rightarrow> Some v | Some t \<Rightarrow> Some t)"
    and "pending_alarm w = None \<Longrightarrow>
           trace (snd (setAlarm h v w)) = trace w @ [GetAlarm, SetAlarm v, StorageSync]"
    and "fst (setAlarm h v w) = Inr ()"
proof -
  have g: "storage_fault h t GetAlarm = None" for t
    using assms by (simp add: timer_ok_def)
  have s: "storage_fault h t (SetAlarm u) = None" for t u
    using assms by (simp add: timer_ok_def)
  have "storage_fault h ((t @ [e]) @ [SetAlarm u]) StorageSync = None" for t e u
    using assms unfolding timer_ok_def by blast
  then have y: "storage_fault h (t @ [e, SetAlarm u]) StorageSync = None" for t e u
    by simp
  show "pending_alarm (snd (setAlarm h v w)) =
          (case pending_alarm w of None \<Rightarrow> Some v | Some t \<Rightarrow> Some t)"
    by (simp add: setAlarm_def await_def ret_def storage_getAlarm_def storage_setAlarm_def
        storage_sync_def storage_call_def emit_def g s y split: option.splits)
  show "pending_alarm w = None \<Longrightarrow>
           trace (snd (setAlarm h v w)) = trace w @ [GetAlarm, SetAlarm v, StorageSync]"
    by (simp add: setAlarm_def await_def ret_def storage_getAlarm_def storage_setAlarm_def
        storage_sync_def storage_call_def emit_def g s y split: option.splits)
  show "fst (setAlarm h v w) = Inr ()"
    by (simp add: setAlarm_def await_def ret_def storage_getAlarm_def storage_setAlarm_def
        storage_sync_def storage_call_def emit_def g s y split: option.splits)
qed

subsection \<open>Computations that leave the alarm slot alone\<close>

lemma keeps_alarmI: "(\<And>w. pending_alarm (snd (m w)) = pending_alarm w) \<Longrightarrow> keeps_alarm m"
  by (simp add: keeps_alarm_def)

lemma keeps_alarmD: "keeps_alarm m \<Longrightarrow> pending_alarm (snd (m w)) = pending_alarm w"
  by (simp add: keeps_alarm_def)

lemma keeps_ret: "keeps_alarm (ret x)"
  by (simp add: keeps_alarm_def ret_def)

lemma keeps_console: "keeps_alarm (console l)"
  by (simp add: keeps_alarm_def console_def emit_def)

lemma keeps_await:
  assumes "keeps_alarm m" and "\<And>x. keeps_alarm (f x)"
  shows "keeps_alarm (await m f)"
proof (rule keeps_alarmI)
  fix w
  have m: "pending_alarm (snd (m w)) = pending_alarm w"
    by (rule keeps_alarmD [OF assms(1)])
  show "pending_alarm (snd (await m f w)) = pending_alarm w"
  proof (cases "fst (m w)")
    case (Inl e)
    with m show ?thesis
      by (simp add: await_def case_prod_beta)
  next
    case (Inr x)
    with m keeps_alarmD [OF assms(2), of x "snd (m w)"] show ?thesis
      by (simp add: await_def case_prod_beta)
  qed
qed

lemma keeps_catch:
  assumes "keeps_alarm m" and "\<And>e. keeps_alarm (f e)"
  shows "keeps_alarm (catch m f)"
proof (rule keeps_alarmI)
  fix w
  have m: "pending_alarm (snd (m w)) = pending_alarm w"
    by (rule keeps_alarmD [OF assms(1)])
  show "pending_alarm (snd (catch m f w)) = pending_alarm w"
  proof (cases "fst (m w)")
    case (Inl e)
    with m keeps_alarmD [OF assms(2), of e "snd (m w)"] show ?thesis
      by (simp add: catch_def case_prod_beta)
  next
    case (Inr x)
    with m show ?thesis
      by (simp add: catch_def case_prod_beta)
  qed
qed

lemma keeps_wrap: "keeps_alarm m \<Longrightarrow> keeps_alarm (wrap m)"
  by (simp add: keeps_alarm_def wrap_def case_prod_beta)

lemma keeps_block: "keeps_alarm m \<Longrightarrow> keeps_alarm (blockConcurrencyWhile m)"
  by (simp add: keeps_alarm_def blockConcurrencyWhile_def emit_def case_prod_beta)

lemma keeps_state_calls:
  "keeps_alarm (storage_get h)" "keeps_alarm (storage_put h s)" "keeps_alarm (storage_sync h)"
  by (simp_all add: keeps_alarm_def storage_get_def storage_put_def storage_sync_def
      storage_call_def emit_def split: option.splits)

lemma keeps_setState: "keeps_alarm (setState h s)"
  unfolding setState_def by (intro keeps_await keeps_console keeps_state_calls)

lemma keeps_state: "keeps_alarm (state h)"
  unfolding state_def by (intro keeps_await keeps_ret keeps_state_calls)

lemma keeps_stateTx: "(\<And>s. keeps_alarm (cb s)) \<Longrightarrow> keeps_alarm (stateTx h cb)"
  unfolding stateTx_def by (intro keeps_block keeps_await keeps_state)

lemma keeps_response_text: "keeps_alarm (response_text res)"
  by (simp add: keeps_alarm_def response_text_def emit_def)

lemma keeps_attach_monitor: "keeps_alarm attach_monitor"
  by (simp add: keeps_alarm_def attach_monitor_closed)

lemma keeps_container_start: "keeps_alarm (container_start containerStart)"
  by (simp add: keeps_alarm_def container_start_def emit_def)

subsection \<open>Computations that reject only with a storage rejection\<close>

lemma seoI:
  "(\<And>w e. fst (m w) = Inl e \<Longrightarrow> \<exists>t ev. storage_fault h t ev = Some e) \<Longrightarrow>
   storage_errors_only h m"
  by (simp add: storage_errors_only_def)

lemma seoD:
  "storage_errors_only h m \<Longrightarrow> fst (m w) = Inl e \<Longrightarrow> \<exists>t ev. storage_fault h t ev = Some e"
  unfolding storage_errors_only_def by blast

lemma seo_ret: "storage_errors_only h (ret x)"
  by (simp add: storage_errors_only_def ret_def)

lemma seo_console: "storage_errors_only h (console l)"
  by (simp add: storage_errors_only_def console_def)

lemma seo_storage_call: "storage_errors_only h (storage_call h ev rd upd)"
  by (auto simp: storage_errors_only_def storage_call_def split: option.splits)

lemma seo_wrap: "storage_errors_only h (wrap m)"
  by (simp add: storage_errors_only_def wrap_def case_prod_beta)

lemma seo_await:
  assumes "storage_errors_only h m" and "\<And>x. storage_errors_only h (f x)"
  shows "storage_errors_only h (await m f)"
proof (rule seoI)
  fix w e
  assume a: "fst (await m f w) = Inl e"
  show "\<exists>t ev. storage_fault h t ev = Some e"
  proof (cases "fst (m w)")
    case (Inl e')
    with a have "e' = e"
      by (simp add: await_def case_prod_beta)
    with Inl seoD [OF assms(1), of w e] show ?thesis
      by simp
  next
    case (Inr x)
    with a have "fst (f x (snd (m w))) = Inl e"
      by (simp add: await_def case_prod_beta)
    then show ?thesis
      by (rule seoD [OF assms(2)])
  qed
qed

lemma seo_block: "storage_errors_only h m \<Longrightarrow> storage_errors_only h (blockConcurrencyWhile m)"
  by (simp add: storage_errors_only_def blockConcurrencyWhile_def case_prod_beta)

lemma seo_try_finally:
  assumes "storage_errors_only h b" and "storage_errors_only h f"
  shows "storage_errors_only h (try_finally b f)"
proof (rule seoI)
  fix w e
  assume a: "fst (try_finally b f w) = Inl e"
  show "\<exists>t ev. storage_fault h t ev = Some e"
  proof (cases "fst (f (snd (b w)))")
    case (Inl e')
    with a have "e' = e"
      by (simp add: try_finally_fst)
    with Inl seoD [OF assms(2), of "snd (b w)" e] show ?thesis
      by simp
  next
    case (Inr u)
    with a have "fst (b w) = Inl e"
      by (simp add: try_finally_fst)
    then show ?thesis
      by (rule seoD [OF assms(1)])
  qed
qed

lemma seo_setState: "storage_errors_only h (setState h s)"
  unfolding setState_def storage_put_def storage_sync_def
  by (intro seo_await seo_console seo_storage_call)

lemma seo_state: "storage_errors_only h (state h)"
  unfolding state_def storage_get_def
  by (intro seo_await seo_ret seo_storage_call)

lemma seo_setAlarm: "storage_errors_only h (setAlarm h v)"
  unfolding setAlarm_def storage_getAlarm_def storage_setAlarm_def storage_sync_def
  by (intro seo_await seo_storage_call) (auto intro!: seo_await seo_ret seo_storage_call)

subsection \<open>The health probe\<close>

lemma healthCheck_fst:
  "fst (healthCheck h p w) =
     (case fetch_result h of
        Inl err \<Rightarrow>
          if isNotListeningError err then Inr NotListening
          else if noContainerYetError err then Inr NoContainerYet
          else Inl err
      | Inr res \<Rightarrow>
          if ok res then (case body res of Inl e \<Rightarrow> Inl e | Inr s \<Rightarrow> Inr Ok)
          else Inr (HttpResponse res))"
  by (simp add: healthCheck_def await_def wrap_def ret_def throw_def getTcpPort_def fetch_def
      response_text_def emit_def split: sum.splits prod.splits)

lemma healthCheck_snd:
  "snd (healthCheck h p w) =
     w\<lparr>trace := trace w @ [GetTcpPort p, Fetch p ''http://container/_health''] @
        (case fetch_result h of Inl err \<Rightarrow> [] | Inr res \<Rightarrow> if ok res then [ReadText] else [])\<rparr>"
  by (simp add: healthCheck_def await_def wrap_def ret_def throw_def getTcpPort_def fetch_def
      response_text_def emit_def split: sum.splits prod.splits)

lemma healthCheck_eq:
  "healthCheck h p w = (fst (healthCheck h p w'), snd (healthCheck h p w))"
  by (simp add: prod_eq_iff healthCheck_fst)

lemma healthCheck_closed:
  "healthCheck h p w =
     (case fetch_result h of
        Inl err \<Rightarrow>
          (if isNotListeningError err then Inr NotListening
           else if noContainerYetError err then Inr NoContainerYet
           else Inl err,
           w\<lparr>trace := trace w @ [GetTcpPort p, Fetch p ''http://container/_health'']\<rparr>)
      | Inr res \<Rightarrow>
          if ok res then
            (case body res of Inl e \<Rightarrow> Inl e | Inr s \<Rightarrow> Inr Ok,
             w\<lparr>trace := trace w @
                [GetTcpPort p, Fetch p ''http://container/_health'', ReadText]\<rparr>)
          else
            (Inr (HttpResponse res),
             w\<lparr>trace := trace w @ [GetTcpPort p, Fetch p ''http://container/_health'']\<rparr>))"
  by (simp add: prod_eq_iff healthCheck_fst healthCheck_snd split: sum.splits)

lemma keeps_healthCheck: "keeps_alarm (healthCheck h p)"
  by (simp add: keeps_alarm_def healthCheck_snd)

text \<open>
  C6. For every outcome of the single probe request a 2xx response should yield \<open>ok\<close>
  with the body drained; the comment above \<open>healthCheck\<close> says it returns \<open>ok\<close> when
  the container returned a successful status code. The code misses this at one input: the
  probe is answered with status 200 and the connection breaks while \<open>res.text()\<close> reads
  the body. \<open>healthCheck\<close> awaits that call without \<open>wrap\<close> (the tick wraps the same
  call on its own response), so it raises the read error instead of returning \<open>ok\<close>.
\<close>

theorem healthCheck_unreadable_2xx_body_raises:
  "fetch_result host_broken_body =
     Inr \<lparr>status = 200, body = Inl (Error ''connection reset'')\<rparr>
   \<and> ok \<lparr>status = 200, body = Inl (Error ''connection reset'')\<rparr>
   \<and> fst (healthCheck host_broken_body 8000 sup_fresh) = Inl (Error ''connection reset'')"
  by (simp add: healthCheck_fst host_broken_body_def ok_def)

text \<open>
  On every other outcome of the fetch \<open>healthCheck\<close> does what the claim says. The
  lemma lists all six cases of the code as it is; the second one is the defect above, and
  the two tests of the message run in the order of the source.
\<close>

lemma healthCheck_classifies:
  "(\<forall>res s. fetch_result h = Inr res \<and> ok res \<and> body res = Inr s \<longrightarrow>
      healthCheck h p w =
        (Inr Ok,
         w\<lparr>trace := trace w @ [GetTcpPort p, Fetch p ''http://container/_health'', ReadText]\<rparr>))
   \<and> (\<forall>res e. fetch_result h = Inr res \<and> ok res \<and> body res = Inl e \<longrightarrow>
      healthCheck h p w =
        (Inl e,
         w\<lparr>trace := trace w @ [GetTcpPort p, Fetch p ''http://container/_health'', ReadText]\<rparr>))
   \<and> (\<forall>res. fetch_result h = Inr res \<and> \<not> ok res \<longrightarrow>
      healthCheck h p w =
        (Inr (HttpResponse res),
         w\<lparr>trace := trace w @ [GetTcpPort p, Fetch p ''http://container/_health'']\<rparr>))
   \<and> (\<forall>err. fetch_result h = Inl err \<and> isNotListeningError err \<longrightarrow>
      healthCheck h p w =
        (Inr NotListening,
         w\<lparr>trace := trace w @ [GetTcpPort p, Fetch p ''http://container/_health'']\<rparr>))
   \<and> (\<forall>err. fetch_result h = Inl err \<and> \<not> isNotListeningError err
              \<and> noContainerYetError err \<longrightarrow>
      healthCheck h p w =
        (Inr NoContainerYet,
         w\<lparr>trace := trace w @ [GetTcpPort p, Fetch p ''http://container/_health'']\<rparr>))
   \<and> (\<forall>err. fetch_result h = Inl err \<and> \<not> isNotListeningError err
              \<and> \<not> noContainerYetError err \<longrightarrow>
      healthCheck h p w =
        (Inl err,
         w\<lparr>trace := trace w @ [GetTcpPort p, Fetch p ''http://container/_health'']\<rparr>))"
proof (cases "fetch_result h")
  case (Inl err)
  then show ?thesis
    by (simp add: healthCheck_closed)
next
  case (Inr res)
  then show ?thesis
    by (simp add: healthCheck_closed)
qed

lemma healthCheck_classifies_examples:
  "healthCheck host_200 8000 sup_fresh =
     (Inr Ok,
      sup_fresh\<lparr>trace := [GetTcpPort 8000, Fetch 8000 ''http://container/_health'', ReadText]\<rparr>)
   \<and> fst (healthCheck host_broken_body 8000 sup_fresh) = Inl (Error ''connection reset'')
   \<and> healthCheck host_503 8000 sup_fresh =
     (Inr (HttpResponse \<lparr>status = 503, body = Inr ''down''\<rparr>),
      sup_fresh\<lparr>trace := [GetTcpPort 8000, Fetch 8000 ''http://container/_health'']\<rparr>)
   \<and> fst (healthCheck
        (host_error ''the container is not listening in the TCP address 10.0.0.2:8000'')
        8000 sup_fresh) = Inr NotListening
   \<and> fst (healthCheck
        (host_error ''there is no container instance that can be provided to this durable object'')
        8000 sup_fresh) = Inr NoContainerYet
   \<and> fst (healthCheck (host_error ''Network connection lost.'') 8000 sup_fresh) =
       Inl (Error ''Network connection lost.'')"
proof -
  have t: "trace sup_fresh = []"
    by (simp add: sup_fresh_def)
  have a: "isNotListeningError
      (Error ''the container is not listening in the TCP address 10.0.0.2:8000'')"
    by (simp add: isNotListeningError_def)
  have b: "\<not> isNotListeningError
      (Error ''there is no container instance that can be provided to this durable object'')"
    "noContainerYetError
      (Error ''there is no container instance that can be provided to this durable object'')"
    by (simp_all add: isNotListeningError_def noContainerYetError_def)
  have c: "\<not> isNotListeningError (Error ''Network connection lost.'')"
    "\<not> noContainerYetError (Error ''Network connection lost.'')"
    by (simp_all add: isNotListeningError_def noContainerYetError_def)
  show ?thesis
    using healthCheck_classifies [of host_200 8000 sup_fresh]
      healthCheck_classifies [of host_broken_body 8000 sup_fresh]
      healthCheck_classifies [of host_503 8000 sup_fresh]
      healthCheck_classifies [of "host_error
        ''the container is not listening in the TCP address 10.0.0.2:8000''" 8000 sup_fresh]
      healthCheck_classifies [of "host_error
        ''there is no container instance that can be provided to this durable object''"
        8000 sup_fresh]
      healthCheck_classifies [of "host_error ''Network connection lost.''" 8000 sup_fresh]
      a b c
    by (simp add: host_200_def host_broken_body_def host_503_def host_error_def ok_def t)
qed

subsection \<open>The tick\<close>

lemma alarm_callback_healthy:
  assumes "storage_healthy h"
  shows "alarm_callback h st w =
     (case fst (healthCheck h 8000 w') of
        Inl err \<Rightarrow>
          if st \<noteq> Starting then
            setState h Failed
              (emit (Console Err) (snd (healthCheck h 8000 (emit (Console Log) w))))
          else (Inr (), emit (Console Err) (snd (healthCheck h 8000 (emit (Console Log) w))))
      | Inr (HttpResponse res) \<Rightarrow>
          setState h Unhealthy
            (emit ReadText
              (emit (Console Warn) (snd (healthCheck h 8000 (emit (Console Log) w)))))
      | Inr Ok \<Rightarrow> setState h Running (snd (healthCheck h 8000 (emit (Console Log) w)))
      | Inr NotListening \<Rightarrow>
          setState h Starting (snd (healthCheck h 8000 (emit (Console Log) w)))
      | Inr NoContainerYet \<Rightarrow>
          setState h Starting (snd (healthCheck h 8000 (emit (Console Log) w))))"
  apply (simp only: alarm_callback_def await_def console_def wrap_def prod.case sum.case)
  apply (subst healthCheck_eq [where w' = w'])
  apply (simp only: prod.case sum.case)
  apply (simp add: await_def console_def wrap_def response_text_def ret_def
      split: sum.splits HealthCheckResult.splits)
  done

lemma alarm_callback_healthy_fst:
  assumes "storage_healthy h"
  shows "fst (alarm_callback h st w) = Inr ()"
  by (simp add: alarm_callback_healthy [OF assms, where w' = w] setState_healthy [OF assms]
      split: sum.splits HealthCheckResult.splits)

lemma alarm_healthy_fst:
  assumes "storage_healthy h"
  shows "fst (alarm h w) = Inr ()"
  by (simp add: alarm_def try_finally_fst setAlarm_pending(3) [OF healthy_timer_ok [OF assms]]
      stateTx_healthy [OF assms] alarm_callback_healthy_fst [OF assms])

lemma alarm_state:
  assumes "storage_healthy h"
  shows "persisted_state (snd (alarm h w)) =
         spec_transition_table (persisted_state w) (fst (healthCheck h 8000 w'))"
  using assms
  by (simp add: alarm_def try_finally_snd setAlarm_persisted stateTx_healthy
      alarm_callback_healthy [where w' = w'] setState_healthy spec_transition_table_def
      emit_def healthCheck_snd
      split: sum.splits HealthCheckResult.splits)

lemma alarm_unhealthy_trace:
  assumes "storage_healthy h" and "fst (healthCheck h 8000 w') = Inr (HttpResponse res)"
  shows "\<exists>post. trace (snd (alarm h w)) =
           trace w @ [EnterCritical, StorageGet, Console Log, GetTcpPort 8000,
                      Fetch 8000 ''http://container/_health'', Console Warn, ReadText,
                      Console Log, StoragePut Unhealthy, StorageSync, ExitCritical] @ post"
proof -
  have "\<exists>r. fetch_result h = Inr r \<and> \<not> ok r"
    using assms(2) by (auto simp: healthCheck_fst split: sum.splits if_splits)
  then obtain r where r: "fetch_result h = Inr r" "\<not> ok r"
    by blast
  have body: "trace (snd (stateTx h (alarm_callback h) w)) =
           trace w @ [EnterCritical, StorageGet, Console Log, GetTcpPort 8000,
                      Fetch 8000 ''http://container/_health'', Console Warn, ReadText,
                      Console Log, StoragePut Unhealthy, StorageSync, ExitCritical]"
    using assms r
    by (simp add: stateTx_healthy alarm_callback_healthy [where w' = w'] setState_healthy
        emit_def healthCheck_snd)
  show ?thesis
    using setAlarm_trace [of h "now h + 500" "snd (stateTx h (alarm_callback h) w)"]
    by (simp add: alarm_def try_finally_snd body)
qed

text \<open>
  C1. With a storage whose calls succeed, one run of \<open>alarm\<close> leaves the persisted state
  that the transition table gives for the state it found (absent read as \<open>starting\<close>)
  and the outcome of the probe: \<open>ok\<close> gives \<open>running\<close>, \<open>not_listening\<close> and
  \<open>no_container_yet\<close> give \<open>starting\<close>, a response that is not 2xx gives
  \<open>unhealthy\<close>, and a raised error gives \<open>failed\<close> unless the state was \<open>starting\<close>,
  which stays. For a response that is not 2xx the body is read before the state is
  written.
\<close>

theorem alarm_applies_transition_table:
  assumes "storage_healthy h"
  shows "persisted_state (snd (alarm h w)) =
           spec_transition_table (persisted_state w) (fst (healthCheck h 8000 w'))
         \<and> (\<forall>res. fst (healthCheck h 8000 w') = Inr (HttpResponse res) \<longrightarrow>
              (\<exists>post. trace (snd (alarm h w)) =
                 trace w @ [EnterCritical, StorageGet, Console Log, GetTcpPort 8000,
                            Fetch 8000 ''http://container/_health'', Console Warn, ReadText,
                            Console Log, StoragePut Unhealthy, StorageSync, ExitCritical]
                   @ post))"
proof (intro conjI allI impI)
  show "persisted_state (snd (alarm h w)) =
          spec_transition_table (persisted_state w) (fst (healthCheck h 8000 w'))"
    using assms by (rule alarm_state)
next
  fix res
  assume "fst (healthCheck h 8000 w') = Inr (HttpResponse res)"
  with assms show "\<exists>post. trace (snd (alarm h w)) =
      trace w @ [EnterCritical, StorageGet, Console Log, GetTcpPort 8000,
                 Fetch 8000 ''http://container/_health'', Console Warn, ReadText,
                 Console Log, StoragePut Unhealthy, StorageSync, ExitCritical] @ post"
    by (rule alarm_unhealthy_trace)
qed

theorem alarm_applies_transition_table_witness:
  "storage_healthy host_503 \<and> storage_healthy host_200
   \<and> storage_healthy (host_error ''Network connection lost.'')
   \<and> persisted_state sup_running = Running \<and> persisted_state sup_fresh = Starting
   \<and> persisted_state (snd (alarm host_503 sup_running)) = Unhealthy
   \<and> (\<exists>post. trace (snd (alarm host_503 sup_running)) =
         [EnterCritical, StorageGet, Console Log, GetTcpPort 8000,
          Fetch 8000 ''http://container/_health'', Console Warn, ReadText,
          Console Log, StoragePut Unhealthy, StorageSync, ExitCritical] @ post)
   \<and> persisted_state (snd (alarm host_200 sup_fresh)) = Running
   \<and> persisted_state (snd (alarm (host_error ''Network connection lost.'') sup_running)) = Failed
   \<and> persisted_state (snd (alarm (host_error ''Network connection lost.'') sup_fresh)) = Starting"
proof -
  have h: "storage_healthy host_503" "storage_healthy host_200"
    "storage_healthy (host_error ''Network connection lost.'')"
    by (simp_all add: storage_healthy_def host_503_def host_200_def host_error_def no_faults_def)
  have p: "fst (healthCheck host_503 8000 sup_fresh) =
             Inr (HttpResponse \<lparr>status = 503, body = Inr ''down''\<rparr>)"
    "fst (healthCheck host_200 8000 sup_fresh) = Inr Ok"
    "fst (healthCheck (host_error ''Network connection lost.'') 8000 sup_fresh) =
       Inl (Error ''Network connection lost.'')"
    by (simp_all add: healthCheck_fst host_503_def host_200_def host_error_def ok_def
        isNotListeningError_def noContainerYetError_def)
  have t: "trace sup_running = []"
    and s: "persisted_state sup_running = Running" "persisted_state sup_fresh = Starting"
    by (simp_all add: sup_running_def sup_fresh_def persisted_state_def)
  show ?thesis
    using alarm_applies_transition_table [OF h(1), of sup_running sup_fresh]
      alarm_applies_transition_table [OF h(2), of sup_fresh sup_fresh]
      alarm_applies_transition_table [OF h(3), of sup_running sup_fresh]
      alarm_applies_transition_table [OF h(3), of sup_fresh sup_fresh] h
    by (simp add: p t s spec_transition_table_def)
qed

lemma keeps_alarm_callback: "keeps_alarm (alarm_callback h st)"
  unfolding alarm_callback_def
  by (intro keeps_await keeps_console keeps_wrap keeps_healthCheck)
     (auto split: sum.splits HealthCheckResult.splits
       intro!: keeps_await keeps_console keeps_wrap keeps_setState keeps_ret keeps_response_text)

lemma alarm_body_keeps:
  "pending_alarm (snd (stateTx h (alarm_callback h) w)) = pending_alarm w"
  by (intro keeps_alarmD keeps_stateTx keeps_alarm_callback)

lemma alarm_pending:
  assumes "timer_ok h"
  shows "pending_alarm (snd (alarm h w)) =
           (case pending_alarm w of None \<Rightarrow> Some (now h + 500) | Some t \<Rightarrow> Some t)"
  by (simp add: alarm_def try_finally_snd setAlarm_pending(1) [OF assms] alarm_body_keeps)

text \<open>
  C4. Whatever the body of the tick did, also when it threw, \<open>alarm\<close> runs \<open>setAlarm\<close>
  before it returns: provided the calls of \<open>setAlarm\<close> themselves succeed, a timer is
  pending afterwards, and when the fired timer was no longer pending (the timer-driven
  tick) it is a new one, for half a second later, set by the last three calls of the
  run.
\<close>

theorem alarm_always_reschedules:
  assumes "timer_ok h"
  shows "pending_alarm (snd (alarm h w)) \<noteq> None
       \<and> (pending_alarm w = None \<longrightarrow>
            pending_alarm (snd (alarm h w)) = Some (now h + 500)
            \<and> (\<exists>pre. trace (snd (alarm h w)) =
                  pre @ [GetAlarm, SetAlarm (now h + 500), StorageSync]))"
proof -
  have "\<exists>pre. trace (snd (alarm h w)) = pre @ [GetAlarm, SetAlarm (now h + 500), StorageSync]"
    if "pending_alarm w = None"
  proof -
    have "pending_alarm (snd (stateTx h (alarm_callback h) w)) = None"
      using that by (simp add: alarm_body_keeps)
    from setAlarm_pending(2) [OF assms this, of "now h + 500"] show ?thesis
      by (simp add: alarm_def try_finally_snd)
  qed
  then show ?thesis
    by (simp add: alarm_pending [OF assms] split: option.splits)
qed

theorem alarm_always_reschedules_witness:
  "timer_ok host_storage_down
   \<and> fst (alarm host_storage_down sup_running) = Inl (Error ''storage unavailable'')
   \<and> pending_alarm sup_running = None
   \<and> pending_alarm (snd (alarm host_storage_down sup_running)) = Some 1500
   \<and> timer_ok host_200
   \<and> fst (alarm host_200 sup_running) = Inr ()
   \<and> pending_alarm (snd (alarm host_200 sup_running)) = Some 1500"
proof -
  have t: "timer_ok host_storage_down" "timer_ok host_200"
    by (simp_all add: timer_ok_def host_storage_down_def host_200_def no_faults_def)
  have p: "pending_alarm sup_running = None"
    by (simp add: sup_running_def)
  have thrown: "fst (stateTx host_storage_down (alarm_callback host_storage_down) sup_running) =
      Inl (Error ''storage unavailable'')"
    by (simp add: stateTx_def blockConcurrencyWhile_def state_def await_def storage_get_def
        storage_call_def emit_def host_storage_down_def)
  have h: "storage_healthy host_200"
    by (simp add: storage_healthy_def host_200_def no_faults_def)
  have n: "now host_storage_down = 1000" "now host_200 = 1000"
    by (simp_all add: host_storage_down_def host_200_def)
  show ?thesis
    using alarm_always_reschedules [OF t(1), of sup_running]
      alarm_always_reschedules [OF t(2), of sup_running] t p
    by (simp add: alarm_healthy_fst [OF h] n)
       (simp add: alarm_def try_finally_fst setAlarm_pending(3) [OF t(1)] thrown)
qed

lemma seo_alarm_callback: "storage_errors_only h (alarm_callback h st)"
  unfolding alarm_callback_def
  by (intro seo_await seo_console seo_wrap)
     (auto split: sum.splits HealthCheckResult.splits
       intro!: seo_await seo_console seo_wrap seo_setState seo_ret)

lemma seo_alarm: "storage_errors_only h (alarm h)"
  unfolding alarm_def stateTx_def
  by (intro seo_try_finally seo_block seo_await seo_state seo_alarm_callback seo_setAlarm)

text \<open>
  C9, as the specification states it, fails: the probe is answered with 200 and the
  storage rejects the write of \<open>running\<close>; \<open>alarm\<close> has \<open>try\<close> and \<open>finally\<close> but no
  \<open>catch\<close>, and the rejection reaches its caller.
\<close>

theorem alarm_propagates_storage_rejection:
  "fetch_result host_put_fails = Inr \<lparr>status = 200, body = Inr ''ok''\<rparr>
   \<and> fst (alarm host_put_fails sup_running) = Inl (Error ''storage put failed'')"
  by (simp add: alarm_def try_finally_def stateTx_def blockConcurrencyWhile_def state_def
      alarm_callback_def healthCheck_def setState_def setAlarm_def await_def wrap_def ret_def
      throw_def console_def getTcpPort_def fetch_def response_text_def storage_get_def
      storage_put_def storage_sync_def storage_getAlarm_def storage_setAlarm_def
      storage_call_def emit_def host_put_fails_def sup_running_def ok_def)

text \<open>
  C9, amended. Every error of the probe, the one that \<open>healthCheck\<close> raises again
  included, is caught inside the tick: with a storage whose calls succeed \<open>alarm\<close> never
  propagates an exception, whatever the probe did. What \<open>alarm\<close> does propagate is the
  rejection of a storage call of its own, and nothing else.
\<close>

theorem alarm_catches_probe_errors:
  "(storage_healthy h \<longrightarrow> fst (alarm h w) = Inr ())
   \<and> (\<forall>e. fst (alarm h w) = Inl e \<longrightarrow> (\<exists>t ev. storage_fault h t ev = Some e))"
proof (intro conjI allI impI)
  assume "storage_healthy h"
  then show "fst (alarm h w) = Inr ()"
    by (rule alarm_healthy_fst)
next
  fix e
  assume "fst (alarm h w) = Inl e"
  with seo_alarm show "\<exists>t ev. storage_fault h t ev = Some e"
    by (rule seoD)
qed

theorem alarm_catches_probe_errors_witness:
  "storage_healthy (host_error ''Network connection lost.'')
   \<and> fst (healthCheck (host_error ''Network connection lost.'') 8000 sup_running) =
       Inl (Error ''Network connection lost.'')
   \<and> fst (alarm (host_error ''Network connection lost.'') sup_running) = Inr ()
   \<and> fst (alarm host_put_fails sup_running) = Inl (Error ''storage put failed'')
   \<and> (\<exists>t ev. storage_fault host_put_fails t ev = Some (Error ''storage put failed''))"
proof -
  have h: "storage_healthy (host_error ''Network connection lost.'')"
    by (simp add: storage_healthy_def host_error_def no_faults_def)
  have p: "fst (healthCheck (host_error ''Network connection lost.'') 8000 sup_running) =
       Inl (Error ''Network connection lost.'')"
    by (simp add: healthCheck_fst host_error_def isNotListeningError_def noContainerYetError_def)
  have e: "fst (alarm host_put_fails sup_running) = Inl (Error ''storage put failed'')"
    by (simp add: alarm_def try_finally_def stateTx_def blockConcurrencyWhile_def state_def
      alarm_callback_def healthCheck_def setState_def setAlarm_def await_def wrap_def ret_def
      throw_def console_def getTcpPort_def fetch_def response_text_def storage_get_def
      storage_put_def storage_sync_def storage_getAlarm_def storage_setAlarm_def
      storage_call_def emit_def host_put_fails_def sup_running_def ok_def)
  show ?thesis
    using alarm_catches_probe_errors [of "host_error ''Network connection lost.''" sup_running]
      alarm_catches_probe_errors [of host_put_fails sup_running] h p e
    by blast
qed

subsection \<open>The monitor's completion\<close>

lemma monitor_catch_healthy:
  "storage_healthy h \<Longrightarrow>
   monitor_catch h e w =
     (Inr (), w\<lparr>stored_state := Some Failed,
                 trace := trace w @ [Console Err, Console Log, StoragePut Failed, StorageSync]\<rparr>)"
  by (simp add: monitor_catch_def await_def console_def emit_def setState_healthy)

lemma monitor_then_healthy:
  "storage_healthy h \<Longrightarrow>
   monitor_then h w =
     (if persisted_state w = Running \<or> persisted_state w = Unhealthy then
        (Inr (), w\<lparr>stored_state := Some Stopped,
                    trace := trace w @ [EnterCritical, StorageGet, Console Log,
                                        StoragePut Stopped, StorageSync, Console Log,
                                        ExitCritical]\<rparr>)
      else if persisted_state w = Starting \<or> persisted_state w = Failed then
        (Inr (), w\<lparr>trace := trace w @ [EnterCritical, StorageGet, Console Log, ExitCritical]\<rparr>)
      else (Inr (), w\<lparr>trace := trace w @ [EnterCritical, StorageGet, ExitCritical]\<rparr>))"
  by (simp add: monitor_then_def stateTx_def blockConcurrencyWhile_def await_def ret_def
        console_def emit_def state_healthy setState_healthy)

text \<open>
  C2. With a storage whose calls succeed: when the monitor promise resolves, the state
  \<open>running\<close> or \<open>unhealthy\<close> becomes \<open>stopped\<close>, and in the state \<open>starting\<close> or
  \<open>failed\<close> the handler reads the state, logs, and changes nothing; when the promise
  rejects, the state becomes \<open>failed\<close> whatever it was.
\<close>

theorem monitor_settlement_transitions:
  assumes "storage_healthy h"
  shows "(persisted_state w = Running \<or> persisted_state w = Unhealthy \<longrightarrow>
            persisted_state (snd (monitor_settled h Resolved w)) = Stopped)
       \<and> (persisted_state w = Starting \<or> persisted_state w = Failed \<longrightarrow>
            snd (monitor_settled h Resolved w) =
              w\<lparr>trace := trace w @ [EnterCritical, StorageGet, Console Log, ExitCritical]\<rparr>)
       \<and> (\<forall>err. persisted_state (snd (monitor_settled h (Rejected err) w)) = Failed)"
proof (intro conjI allI impI)
  assume "persisted_state w = Running \<or> persisted_state w = Unhealthy"
  with assms show "persisted_state (snd (monitor_settled h Resolved w)) = Stopped"
    by (simp add: monitor_settled_def catch_def monitor_then_healthy)
next
  assume "persisted_state w = Starting \<or> persisted_state w = Failed"
  then have "\<not> (persisted_state w = Running \<or> persisted_state w = Unhealthy)"
    by auto
  with assms \<open>persisted_state w = Starting \<or> persisted_state w = Failed\<close>
  show "snd (monitor_settled h Resolved w) =
      w\<lparr>trace := trace w @ [EnterCritical, StorageGet, Console Log, ExitCritical]\<rparr>"
    by (simp add: monitor_settled_def catch_def monitor_then_healthy)
next
  fix err
  from assms show "persisted_state (snd (monitor_settled h (Rejected err) w)) = Failed"
    by (simp add: monitor_settled_def monitor_catch_healthy)
qed

theorem monitor_settlement_transitions_witness:
  "storage_healthy host_200
   \<and> persisted_state sup_running = Running
   \<and> persisted_state (snd (monitor_settled host_200 Resolved sup_running)) = Stopped
   \<and> persisted_state sup_fresh = Starting
   \<and> stored_state (snd (monitor_settled host_200 Resolved sup_fresh)) = None
   \<and> persisted_state
       (snd (monitor_settled host_200 (Rejected (Error ''exit code 1'')) sup_running)) = Failed
   \<and> persisted_state
       (snd (monitor_settled host_200 (Rejected (Error ''exit code 1'')) sup_fresh)) = Failed"
proof -
  have h: "storage_healthy host_200"
    by (simp add: storage_healthy_def host_200_def no_faults_def)
  have r: "persisted_state sup_running = Running" and f: "persisted_state sup_fresh = Starting"
    by (simp_all add: sup_running_def sup_fresh_def persisted_state_def)
  show ?thesis
    using monitor_settlement_transitions [OF h, of sup_running]
      monitor_settlement_transitions [OF h, of sup_fresh] h
    by (simp add: r f) (simp add: sup_fresh_def)
qed

lemma monitor_then_serialized:
  "\<exists>es. trace (snd (monitor_then h w)) = trace w @ es \<and> serialized False es"
  by (simp add: monitor_then_def stateTx_def blockConcurrencyWhile_def state_def setState_def
      await_def ret_def console_def storage_get_def storage_put_def storage_sync_def
      storage_call_def emit_def split: option.splits)

lemma monitor_catch_unserialized:
  "\<exists>es. trace (snd (monitor_catch h err w)) = trace w @ es
        \<and> EnterCritical \<notin> set es \<and> StoragePut Failed \<in> set es \<and> \<not> serialized False es"
  by (simp add: monitor_catch_def setState_def
      await_def ret_def console_def storage_get_def storage_put_def storage_sync_def
      storage_call_def emit_def split: option.splits)

text \<open>
  C3, as the specification states it, fails: when the monitor promise rejects, the
  handler writes \<open>failed\<close> with a plain \<open>setState\<close>, and the critical section is never
  entered.
\<close>

theorem monitor_rejection_outside_section:
  "StoragePut Failed \<in> set (trace (snd
      (monitor_settled host_200 (Rejected (Error ''exit code 1'')) sup_running)))
   \<and> EnterCritical \<notin> set (trace (snd
      (monitor_settled host_200 (Rejected (Error ''exit code 1'')) sup_running)))
   \<and> \<not> serialized False (trace (snd
      (monitor_settled host_200 (Rejected (Error ''exit code 1'')) sup_running)))"
  by (simp add: monitor_settled_def monitor_catch_def setState_def
      await_def ret_def console_def storage_get_def storage_put_def storage_sync_def
      storage_call_def emit_def host_200_def no_faults_def sup_running_def)

text \<open>
  C3, amended. In the success branch of the monitor's completion handler every read and
  write of the state happens inside the critical section (\<open>blockConcurrencyWhile\<close>, as
  in the tick), whether the storage calls succeed or not. The failure branch writes
  \<open>failed\<close> directly, without entering the critical section.
\<close>

theorem monitor_handler_sections:
  "(\<exists>es. trace (snd (monitor_then h w)) = trace w @ es \<and> serialized False es)
   \<and> (\<forall>err. \<exists>es. trace (snd (monitor_settled h (Rejected err) w)) = trace w @ es
          \<and> EnterCritical \<notin> set es \<and> StoragePut Failed \<in> set es \<and> \<not> serialized False es)"
proof
  show "\<exists>es. trace (snd (monitor_then h w)) = trace w @ es \<and> serialized False es"
    by (rule monitor_then_serialized)
next
  show "\<forall>err. \<exists>es. trace (snd (monitor_settled h (Rejected err) w)) = trace w @ es
          \<and> EnterCritical \<notin> set es \<and> StoragePut Failed \<in> set es \<and> \<not> serialized False es"
    by (simp add: monitor_settled_def monitor_catch_unserialized)
qed

subsection \<open>start\<close>

text \<open>
  C7. \<open>start\<close> on a running runtime with a tracked monitor does nothing at all. On a
  running runtime without a tracked monitor its only effect is to ask the runtime for a
  monitor promise, track it and attach the handlers. On a runtime that is not running
  (and a storage whose calls succeed) it persists \<open>starting\<close>, starts the runtime with
  the given options, and tracks and handles a fresh monitor promise, in this order.
\<close>

theorem start_idempotent:
  "(running w \<and> monitor w \<noteq> None \<longrightarrow> start h containerStart w = (Inr (), w))
   \<and> (running w \<and> monitor w = None \<longrightarrow>
        start h containerStart w =
          (Inr (), w\<lparr>monitor := Some (monitors_created w),
                      monitors_created := Suc (monitors_created w),
                      trace := trace w @
                        [ContainerMonitor, AttachHandlers (monitors_created w)]\<rparr>))
   \<and> (\<not> running w \<and> storage_healthy h \<longrightarrow>
        start h containerStart w =
          (Inr (), w\<lparr>stored_state := Some Starting, running := True,
                      monitor := Some (monitors_created w),
                      monitors_created := Suc (monitors_created w),
                      trace := trace w @ [Console Log, StoragePut Starting, StorageSync,
                                          ContainerStart containerStart, ContainerMonitor,
                                          AttachHandlers (monitors_created w)]\<rparr>))"
proof (cases "running w")
  case True
  then show ?thesis
    by (simp add: start_def attach_monitor_closed ret_def)
next
  case False
  then show ?thesis
    by (simp add: start_def attach_monitor_closed await_def setState_healthy
        container_start_def emit_def)
qed

theorem start_idempotent_witness:
  "start host_200 None sup_armed = (Inr (), sup_armed)
   \<and> start host_200 None sup_unmonitored =
       (Inr (), sup_unmonitored\<lparr>monitor := Some 0, monitors_created := 1,
                                 trace := [ContainerMonitor, AttachHandlers 0]\<rparr>)
   \<and> start host_200 (Some \<lparr>entrypoint = [''node'', ''server.js''], enableInternet = True\<rparr>)
         sup_fresh =
       (Inr (), sup_fresh\<lparr>stored_state := Some Starting, running := True, monitor := Some 0,
          monitors_created := 1,
          trace := [Console Log, StoragePut Starting, StorageSync,
                    ContainerStart
                      (Some \<lparr>entrypoint = [''node'', ''server.js''], enableInternet = True\<rparr>),
                    ContainerMonitor, AttachHandlers 0]\<rparr>)"
proof -
  have h: "storage_healthy host_200"
    by (simp add: storage_healthy_def host_200_def no_faults_def)
  show ?thesis
    using start_idempotent [of sup_armed host_200 None]
      start_idempotent [of sup_unmonitored host_200 None]
      start_idempotent [of sup_fresh host_200
        "Some \<lparr>entrypoint = [''node'', ''server.js''], enableInternet = True\<rparr>"] h
    by (simp add: sup_armed_def sup_unmonitored_def sup_fresh_def)
qed

lemma start_pending: "pending_alarm (snd (start h containerStart w)) = pending_alarm w"
proof -
  have "keeps_alarm (await (setState h Starting) (\<lambda>_.
         await (container_start containerStart) (\<lambda>_. attach_monitor)))"
    by (intro keeps_await keeps_setState keeps_container_start keeps_attach_monitor)
  then show ?thesis
    by (simp add: start_def keeps_alarmD keeps_attach_monitor ret_def)
qed

subsection \<open>destroy\<close>

lemma destroy_fst: "fst (destroy h w) = Inl Aborted"
  by (simp add: destroy_def try_finally_fst ctx_abort_def)

lemma destroy_trace:
  "trace (snd (destroy h w)) = trace w @ [StorageDeleteAll, CtxAbort]
   \<or> trace (snd (destroy h w)) = trace w @ [StorageDeleteAll, DeleteAlarm, CtxAbort]
   \<or> trace (snd (destroy h w)) =
        trace w @ [StorageDeleteAll, DeleteAlarm, ContainerDestroy, CtxAbort]"
  by (simp add: destroy_def try_finally_snd ctx_abort_def await_def storage_deleteAll_def
      storage_deleteAlarm_def container_destroy_def storage_call_def emit_def
      split: option.splits)

lemma destroy_healthy:
  "storage_healthy h \<Longrightarrow>
   snd (destroy h w) =
     w\<lparr>stored_state := None, pending_alarm := None,
       running := (case destroy_result h of None \<Rightarrow> False | Some e \<Rightarrow> running w),
       trace := trace w @ [StorageDeleteAll, DeleteAlarm, ContainerDestroy, CtxAbort]\<rparr>"
  by (simp add: destroy_def try_finally_snd ctx_abort_def await_def storage_deleteAll_def
      storage_deleteAlarm_def container_destroy_def storage_call_def emit_def healthy_fault
      split: option.splits)

text \<open>
  C5. \<open>destroy\<close> always ends by aborting the object, so its caller always gets the
  termination signal. Before that it deletes the persisted state, then the pending timer,
  then asks the runtime to destroy the container, in this order, and stops at the first of
  these calls that fails. When the two storage calls succeed, the persisted state and the
  timer are gone and the runtime has been asked before the abort, whether the runtime's
  destroy call succeeds or fails.
\<close>

theorem destroy_order_and_termination:
  "fst (destroy h w) = Inl Aborted
   \<and> (trace (snd (destroy h w)) = trace w @ [StorageDeleteAll, CtxAbort]
      \<or> trace (snd (destroy h w)) = trace w @ [StorageDeleteAll, DeleteAlarm, CtxAbort]
      \<or> trace (snd (destroy h w)) =
           trace w @ [StorageDeleteAll, DeleteAlarm, ContainerDestroy, CtxAbort])
   \<and> (storage_healthy h \<longrightarrow>
        stored_state (snd (destroy h w)) = None
        \<and> pending_alarm (snd (destroy h w)) = None
        \<and> trace (snd (destroy h w)) =
            trace w @ [StorageDeleteAll, DeleteAlarm, ContainerDestroy, CtxAbort])"
proof (intro conjI impI)
  show "fst (destroy h w) = Inl Aborted"
    by (rule destroy_fst)
  show "trace (snd (destroy h w)) = trace w @ [StorageDeleteAll, CtxAbort]
      \<or> trace (snd (destroy h w)) = trace w @ [StorageDeleteAll, DeleteAlarm, CtxAbort]
      \<or> trace (snd (destroy h w)) =
           trace w @ [StorageDeleteAll, DeleteAlarm, ContainerDestroy, CtxAbort]"
    by (rule destroy_trace)
next
  assume h: "storage_healthy h"
  show "stored_state (snd (destroy h w)) = None"
    by (simp add: destroy_healthy [OF h])
  show "pending_alarm (snd (destroy h w)) = None"
    by (simp add: destroy_healthy [OF h])
  show "trace (snd (destroy h w)) =
      trace w @ [StorageDeleteAll, DeleteAlarm, ContainerDestroy, CtxAbort]"
    by (simp add: destroy_healthy [OF h])
qed

theorem destroy_order_and_termination_witness:
  "storage_healthy host_destroy_fails
   \<and> destroy_result host_destroy_fails = Some (Error ''runtime destroy failed'')
   \<and> stored_state sup_armed = Some Running \<and> pending_alarm sup_armed = Some 1500
   \<and> fst (destroy host_destroy_fails sup_armed) = Inl Aborted
   \<and> stored_state (snd (destroy host_destroy_fails sup_armed)) = None
   \<and> pending_alarm (snd (destroy host_destroy_fails sup_armed)) = None
   \<and> trace (snd (destroy host_destroy_fails sup_armed)) =
       [StorageDeleteAll, DeleteAlarm, ContainerDestroy, CtxAbort]"
proof -
  have h: "storage_healthy host_destroy_fails"
    by (simp add: storage_healthy_def host_destroy_fails_def no_faults_def)
  show ?thesis
    using destroy_order_and_termination [of host_destroy_fails sup_armed] h
    by (simp add: host_destroy_fails_def sup_armed_def)
qed

subsection \<open>The constructor\<close>

lemma constructor_init_timer:
  assumes "timer_ok h"
  shows "fst (constructor_init h w) = Inr ()"
    and "pending_alarm (snd (constructor_init h w)) \<noteq> None"
proof -
  let ?attach = "\<lambda>w. if running w then (if monitor w = None then attach_monitor w else ret () w)
                    else ret () w"
  have "fst (?attach (emit EnterCritical w)) = Inr ()"
    by (simp add: attach_monitor_closed ret_def)
  then obtain a where a: "?attach (emit EnterCritical w) = (Inr (), a)"
    by (cases "?attach (emit EnterCritical w)") simp
  have eq: "constructor_init h w =
      (fst (setAlarm h (now h) a), emit ExitCritical (snd (setAlarm h (now h) a)))"
    unfolding constructor_init_def blockConcurrencyWhile_def await_def a
    by (simp add: case_prod_beta)
  show "fst (constructor_init h w) = Inr ()"
    by (simp add: eq setAlarm_pending(3) [OF assms])
  show "pending_alarm (snd (constructor_init h w)) \<noteq> None"
    by (simp add: eq emit_def setAlarm_pending(1) [OF assms] split: option.splits)
qed

lemma constructor_init_running: "running (snd (constructor_init h w)) = running w"
  by (simp add: constructor_init_def blockConcurrencyWhile_def await_def ret_def
      attach_monitor_closed setAlarm_def storage_getAlarm_def storage_setAlarm_def
      storage_sync_def storage_call_def emit_def split: option.splits prod.splits sum.splits)

text \<open>
  C10. The constructor throws, and nothing else happens, when the context has no
  container; so whenever a supervisor has been constructed the context had a runtime
  handle, the one the supervisor holds, and with a runtime handle the constructor
  does construct one.
\<close>

theorem constructor_requires_container:
  "(ctx_container c = None \<longrightarrow> constructor h c = Inl (Error ''container is not defined''))
   \<and> (\<forall>r w. constructor h c = Inr (r, w) \<longrightarrow> ctx_container c = Some (running w))
   \<and> (ctx_container c \<noteq> None \<longrightarrow> (\<exists>r w. constructor h c = Inr (r, w)))"
proof -
  have "ctx_container c = Some (running w)" if "constructor h c = Inr (r, w)" for r w
  proof (cases "ctx_container c")
    case None
    with that show ?thesis
      by (simp add: constructor_def)
  next
    case (Some b)
    with that have "snd (constructor_init h (new_supervisor c b)) = w"
      by (simp add: constructor_def)
    with constructor_init_running [of h "new_supervisor c b"] Some show ?thesis
      by (auto simp: new_supervisor_def)
  qed
  moreover have "\<exists>r w. constructor h c = Inr (r, w)" if "ctx_container c = Some b" for b
    using that by (cases "constructor_init h (new_supervisor c b)") (simp add: constructor_def)
  ultimately show ?thesis
    by (auto simp: constructor_def)
qed

theorem constructor_requires_container_witness:
  "ctx_container ctx_without_container = None
   \<and> constructor host_200 ctx_without_container = Inl (Error ''container is not defined'')
   \<and> ctx_container ctx_idle \<noteq> None
   \<and> (\<exists>r w. constructor host_200 ctx_idle = Inr (r, w))"
proof -
  have a: "ctx_container ctx_without_container = None" and b: "ctx_container ctx_idle \<noteq> None"
    by (simp_all add: ctx_without_container_def ctx_idle_def)
  show ?thesis
    using constructor_requires_container [of ctx_without_container host_200]
      constructor_requires_container [of ctx_idle host_200] a b
    by blast
qed

subsection \<open>The timer over the lifetime of the supervisor\<close>

lemma keeps_monitor_then: "keeps_alarm (monitor_then h)"
  unfolding monitor_then_def
  by (intro keeps_stateTx) (auto intro!: keeps_await keeps_setState keeps_console keeps_ret)

lemma keeps_monitor_catch: "keeps_alarm (monitor_catch h err)"
  unfolding monitor_catch_def by (intro keeps_await keeps_console keeps_setState)

lemma monitor_settled_pending: "pending_alarm (snd (monitor_settled h s w)) = pending_alarm w"
proof (cases s)
  case Resolved
  then show ?thesis
    by (simp add: monitor_settled_def keeps_alarmD [OF keeps_catch] keeps_monitor_then
        keeps_monitor_catch)
next
  case (Rejected err)
  then show ?thesis
    by (simp add: monitor_settled_def keeps_alarmD [OF keeps_monitor_catch])
qed

lemma step_pending:
  assumes "timer_ok h" and "pending_alarm w \<noteq> None"
  shows "pending_alarm (step h op w) \<noteq> None"
proof (cases op)
  case (OpStart containerStart)
  with assms(2) show ?thesis
    by (simp add: start_pending)
next
  case (OpAlarm fired)
  then show ?thesis
    by (simp add: alarm_pending [OF assms(1)] split: option.splits)
next
  case (OpMonitorSettled s)
  with assms(2) show ?thesis
    by (simp add: monitor_settled_pending)
next
  case (OpRuntime r)
  with assms(2) show ?thesis
    by simp
qed

lemma run_pending:
  assumes "\<forall>(h, op) \<in> set steps. timer_ok h" and "pending_alarm w \<noteq> None"
  shows "pending_alarm (run steps w) \<noteq> None"
  using assms
proof (induction steps arbitrary: w)
  case Nil
  then show ?case
    by simp
next
  case (Cons a steps)
  obtain h op where a: "a = (h, op)"
    by (cases a)
  with Cons.prems have "timer_ok h"
    by simp
  then have "pending_alarm (step h op w) \<noteq> None"
    using Cons.prems(2) by (rule step_pending)
  moreover have "\<forall>(h, op) \<in> set steps. timer_ok h"
    using Cons.prems(1) by simp
  ultimately show ?case
    using Cons.IH a by simp
qed

text \<open>
  C8. Provided the calls of \<open>setAlarm\<close> succeed: the constructor, given a runtime handle,
  leaves a timer pending, and after every sequence of operations of the supervisor's
  lifetime (calls of \<open>start\<close>, ticks whose fired timer the platform has taken out of the
  slot or not, settlements of the monitor, changes of the runtime's flag) a timer is
  pending; the alarm slot holds at most one. \<open>setAlarm\<close> never overwrites a pending
  timer, and sets the given wake-up when none is pending.
\<close>

theorem timer_always_pending:
  assumes "ctx_container c \<noteq> None" and "timer_ok h0" and "\<forall>(h, op) \<in> set steps. timer_ok h"
  shows "(\<exists>w0. constructor h0 c = Inr (Inr (), w0) \<and> pending_alarm w0 \<noteq> None
            \<and> pending_alarm (run steps w0) \<noteq> None)
       \<and> (\<forall>h v w t. pending_alarm w = Some t \<longrightarrow>
            pending_alarm (snd (setAlarm h v w)) = Some t)
       \<and> (\<forall>v w. pending_alarm w = None \<longrightarrow> pending_alarm (snd (setAlarm h0 v w)) = Some v)"
proof -
  obtain b where b: "ctx_container c = Some b"
    using assms(1) by blast
  let ?w0 = "snd (constructor_init h0 (new_supervisor c b))"
  have "constructor h0 c = Inr (Inr (), ?w0)"
    using constructor_init_timer(1) [OF assms(2), of "new_supervisor c b"]
    by (simp add: constructor_def b prod_eq_iff)
  moreover have "pending_alarm ?w0 \<noteq> None"
    by (rule constructor_init_timer(2) [OF assms(2)])
  moreover have "pending_alarm (run steps ?w0) \<noteq> None"
    using assms(3) constructor_init_timer(2) [OF assms(2)] by (rule run_pending)
  ultimately show ?thesis
    by (simp add: setAlarm_no_overwrite setAlarm_pending(1) [OF assms(2)])
qed

theorem timer_always_pending_witness:
  "ctx_container ctx_idle \<noteq> None \<and> timer_ok host_200 \<and> timer_ok host_storage_down
   \<and> (\<exists>w0. constructor host_200 ctx_idle = Inr (Inr (), w0) \<and> pending_alarm w0 \<noteq> None
         \<and> pending_alarm (run [(host_200, OpStart None), (host_200, OpAlarm True),
                                (host_storage_down, OpAlarm True),
                                (host_200, OpMonitorSettled Resolved),
                                (host_200, OpAlarm False)] w0) \<noteq> None)"
proof -
  have c: "ctx_container ctx_idle \<noteq> None"
    by (simp add: ctx_idle_def)
  have t: "timer_ok host_200" "timer_ok host_storage_down"
    by (simp_all add: timer_ok_def host_200_def host_storage_down_def no_faults_def)
  have s: "\<forall>(h, op) \<in> set [(host_200, OpStart None), (host_200, OpAlarm True),
                                (host_storage_down, OpAlarm True),
                                (host_200, OpMonitorSettled Resolved),
                                (host_200, OpAlarm False)]. timer_ok h"
    using t by simp
  show ?thesis
    using timer_always_pending [OF c t(1) s] c t by blast
qed

end
